theory Spec2Isabelle
  imports Main "HOL-Library.Word" "HOL-Library.Sublist"
begin

unbundle bit_operations_syntax

section \<open>QString primitives\<close>

text \<open>
  A QString is modelled as a \<open>string\<close> (a list of 8-bit characters), so the model covers
  Latin-1 text. Every literal the program compares against is ASCII.
\<close>

text \<open>
  \<open>QString::compare\<close>, case sensitive: lexicographic on the character codes, a proper
  prefix being smaller. \<open>qstr_le a b\<close> is \<open>a <= b\<close>, \<open>qstr_less a b\<close> is \<open>a < b\<close>.
\<close>

fun qstr_le :: "string \<Rightarrow> string \<Rightarrow> bool" where
  "qstr_le [] ys = True"
| "qstr_le (x # xs) [] = False"
| "qstr_le (x # xs) (y # ys) =
     (if (of_char x :: nat) < of_char y then True
      else if (of_char y :: nat) < of_char x then False
      else qstr_le xs ys)"

definition qstr_less :: "string \<Rightarrow> string \<Rightarrow> bool" where
  "qstr_less a b = (\<not> qstr_le b a)"

text \<open>\<open>QChar::isSpace\<close> on the Latin-1 range.\<close>

definition isSpace :: "char \<Rightarrow> bool" where
  "isSpace c = (let n = (of_char c :: nat) in
     (9 \<le> n \<and> n \<le> 13) \<or> n = 32 \<or> n = 133 \<or> n = 160)"

text \<open>\<open>QString::trimmed\<close>: white space removed at both ends.\<close>

definition trimmed :: "string \<Rightarrow> string" where
  "trimmed s = rev (dropWhile isSpace (rev (dropWhile isSpace s)))"

text \<open>
  Lower-casing. Only the letters A to Z are mapped: the results are compared with ASCII
  literals only, and no other 8-bit character lower-cases to an ASCII letter.
\<close>

definition toLower_char :: "char \<Rightarrow> char" where
  "toLower_char c = (let n = (of_char c :: nat) in
     if 65 \<le> n \<and> n \<le> 90 then char_of (n + 32) else c)"

definition toLower :: "string \<Rightarrow> string" where
  "toLower s = map toLower_char s"

text \<open>\<open>QString::startsWith(prefix, Qt::CaseInsensitive)\<close>.\<close>

definition startsWith_ci :: "string \<Rightarrow> string \<Rightarrow> bool" where
  "startsWith_ci s p = (toLower (take (length p) s) = toLower p)"

text \<open>
  \<open>QString::split(sep)\<close> with the default \<open>Qt::KeepEmptyParts\<close>: the pieces between
  separators, empty ones included; \<open>split_acc\<close> carries the piece being read.
\<close>

fun split_acc :: "char \<Rightarrow> string \<Rightarrow> string \<Rightarrow> string list" where
  "split_acc sep acc [] = [acc]"
| "split_acc sep acc (c # cs) =
     (if c = sep then acc # split_acc sep [] cs else split_acc sep (acc @ [c]) cs)"

definition split :: "char \<Rightarrow> string \<Rightarrow> string list" where
  "split sep s = split_acc sep [] s"

text \<open>\<open>QString::split(sep, Qt::SkipEmptyParts)\<close>.\<close>

definition split_skipEmpty :: "char \<Rightarrow> string \<Rightarrow> string list" where
  "split_skipEmpty sep s = filter (\<lambda>p. p \<noteq> []) (split sep s)"

text \<open>
  Modelled from the spec: \<open>StringUtil::removeWhitespace\<close> (utilities/stringutil.h is not
  among the sources). The spec: "strip all whitespace from the input first".
\<close>

definition removeWhitespace :: "string \<Rightarrow> string" where
  "removeWhitespace s = filter (\<lambda>c. \<not> isSpace c) s"

section \<open>QMap and QMultiMap\<close>

text \<open>
  Both containers keep their items sorted by key; they are modelled as association lists
  in iteration order, the key order \<open>lt\<close> being a parameter. \<open>QMap::insert\<close> replaces the
  value of a key already present. \<open>QMultiMap::insert\<close> adds the item in front of the items
  with an equal key, so that \<open>values(key)\<close> lists the most recently inserted first.
\<close>

type_synonym ('k, 'v) qmap = "('k \<times> 'v) list"

fun qmap_insert :: "('k \<Rightarrow> 'k \<Rightarrow> bool) \<Rightarrow> 'k \<Rightarrow> 'v \<Rightarrow> ('k, 'v) qmap \<Rightarrow> ('k, 'v) qmap" where
  "qmap_insert lt k v [] = [(k, v)]"
| "qmap_insert lt k v ((k', v') # m) =
     (if lt k' k then (k', v') # qmap_insert lt k v m
      else if lt k k' then (k, v) # (k', v') # m
      else (k, v) # m)"

fun qmultimap_insert :: "('k \<Rightarrow> 'k \<Rightarrow> bool) \<Rightarrow> 'k \<Rightarrow> 'v \<Rightarrow> ('k, 'v) qmap \<Rightarrow> ('k, 'v) qmap" where
  "qmultimap_insert lt k v [] = [(k, v)]"
| "qmultimap_insert lt k v ((k', v') # m) =
     (if lt k' k then (k', v') # qmultimap_insert lt k v m
      else (k, v) # (k', v') # m)"

text \<open>
  \<open>value(key)\<close> of a map of shared pointers: the pointer stored under the key, or the
  null pointer (\<open>None\<close>) when the key is absent.
\<close>

definition qmap_value :: "('k, 'v) qmap \<Rightarrow> 'k \<Rightarrow> 'v option" where
  "qmap_value m k = map_of m k"

definition qmap_keys :: "('k, 'v) qmap \<Rightarrow> 'k list" where
  "qmap_keys m = map fst m"

definition qmap_values :: "('k, 'v) qmap \<Rightarrow> 'k \<Rightarrow> 'v list" where
  "qmap_values m k = map snd (filter (\<lambda>kv. fst kv = k) m)"

definition qmap_uniqueKeys :: "('k, 'v) qmap \<Rightarrow> 'k list" where
  "qmap_uniqueKeys m = remdups_adj (map fst m)"

section \<open>BCP47Language\<close>

datatype Type = BAD_TAG | LANGUAGE | EXTLANG | SCRIPT | REGION | VARIANT
  | GRANDFATHERED | REDUNDANT

text \<open>A \<open>QDate\<close> is its Julian day number; the null date holds the least 64-bit value.\<close>

type_synonym QDate = int

definition nullDate :: QDate where
  "nullDate = - (2 ^ 63)"

record BCP47Language =
  m_type :: Type
  m_subtag :: string
  m_tag :: string
  m_descriptions :: "string list"
  m_added :: QDate
  m_suppressScriptLang :: string
  m_macrolanguageName :: string
  m_comments :: string
  m_preferredValue :: string
  m_prefix :: "string list"
  m_macrolanguage :: bool
  m_collection :: bool
  m_deprecated :: bool

text \<open>The constructor: type LANGUAGE, the three flags false, the rest empty.\<close>

definition new_BCP47Language :: BCP47Language where
  "new_BCP47Language = \<lparr> m_type = LANGUAGE, m_subtag = [], m_tag = [],
     m_descriptions = [], m_added = nullDate, m_suppressScriptLang = [],
     m_macrolanguageName = [], m_comments = [], m_preferredValue = [], m_prefix = [],
     m_macrolanguage = False, m_collection = False, m_deprecated = False \<rparr>"

definition addDescription :: "string \<Rightarrow> BCP47Language \<Rightarrow> BCP47Language" where
  "addDescription desc l = l\<lparr> m_descriptions := m_descriptions l @ [desc] \<rparr>"

definition appendDescription :: "string \<Rightarrow> BCP47Language \<Rightarrow> BCP47Language" where
  "appendDescription desc l =
     (if length (m_descriptions l) = 0 then l\<lparr> m_descriptions := m_descriptions l @ [desc] \<rparr>
      else let i = length (m_descriptions l) - 1;
               description = (m_descriptions l ! i) @ [CHR 0x0A] @ desc
           in l\<lparr> m_descriptions := (m_descriptions l)[i := description] \<rparr>)"

definition appendComment :: "string \<Rightarrow> BCP47Language \<Rightarrow> BCP47Language" where
  "appendComment extra l = l\<lparr> m_comments := m_comments l @ [CHR 0x0A] @ extra \<rparr>"

definition addPrefix :: "string \<Rightarrow> BCP47Language \<Rightarrow> BCP47Language" where
  "addPrefix p l = l\<lparr> m_prefix := m_prefix l @ [p] \<rparr>"

text \<open>
  The values of the enumeration \<open>TagType\<close>. Several enumerators share a value
  (\<open>REDUNDANT_LANGUAGE\<close> and \<open>VARIANT_LANGUAGE\<close>, for one), so the type is the 32-bit value
  itself. \<open>NO_EXTENDED_LANGUAGE\<close> has no initialiser and is one more than
  \<open>EXTLANG_MISMATCH\<close>.
\<close>

type_synonym TagType = "32 word"

definition PRIMARY_LANGUAGE :: TagType where "PRIMARY_LANGUAGE = 0x1"
definition PRIVATE_LANGUAGE :: TagType where "PRIVATE_LANGUAGE = 0x2"
definition NO_PRIMARY_LANGUAGE :: TagType where "NO_PRIMARY_LANGUAGE = 0x1000000"
definition EXTENDED_LANGUAGE :: TagType where "EXTENDED_LANGUAGE = 0x8"
definition EXTLANG_MISMATCH :: TagType where "EXTLANG_MISMATCH = 0x10"
definition NO_EXTENDED_LANGUAGE :: TagType where "NO_EXTENDED_LANGUAGE = 0x11"
definition SCRIPT_LANGUAGE :: TagType where "SCRIPT_LANGUAGE = 0x100"
definition PRIVATE_SCRIPT :: TagType where "PRIVATE_SCRIPT = 0x400"
definition NO_SCRIPT :: TagType where "NO_SCRIPT = 0x800"
definition REGIONAL_LANGUAGE :: TagType where "REGIONAL_LANGUAGE = 0x10000"
definition PRIVATE_REGION :: TagType where "PRIVATE_REGION = 0x20000"
definition NO_REGION :: TagType where "NO_REGION = 0x40000"
definition VARIANT_LANGUAGE :: TagType where "VARIANT_LANGUAGE = 0x200000"
definition NO_VARIANT_LANGUAGE :: TagType where "NO_VARIANT_LANGUAGE = 0x400000"
definition GRANDFATHERED_LANGUAGE :: TagType where "GRANDFATHERED_LANGUAGE = 0x100000"
definition NO_GRANDFATHERED_LANGUAGE :: TagType where "NO_GRANDFATHERED_LANGUAGE = 0x1000000"
definition REDUNDANT_LANGUAGE :: TagType where "REDUNDANT_LANGUAGE = 0x200000"
definition NO_REDUNDANT_LANGUAGE :: TagType where "NO_REDUNDANT_LANGUAGE = 0x4000000"
definition BAD_SUBTAG :: TagType where "BAD_SUBTAG = 0x40000000"

section \<open>BCP47Languages: the indexes\<close>

type_synonym lang_map = "(string, BCP47Language) qmap"

text \<open>Signals emitted and files written, in order.\<close>

datatype event = SaveToLocalFile string | SendMessage QDate | ErrorSignal

record BCP47Languages =
  m_languageFilename :: string
  m_datasetByDescription :: lang_map
  m_languageByDescription :: lang_map
  m_languageBySubtag :: lang_map
  m_extlangByDescription :: lang_map
  m_extlangBySubtag :: lang_map
  m_regionByDescription :: lang_map
  m_regionBySubtag :: lang_map
  m_scriptByDescription :: lang_map
  m_scriptBySubtag :: lang_map
  m_variantByDescription :: lang_map
  m_variantBySubtag :: lang_map
  m_grandfatheredByDescription :: lang_map
  m_grandfatheredByTag :: lang_map
  m_redundantByDescription :: lang_map
  m_redundantByTag :: lang_map
  m_fileDate :: QDate

text \<open>A fresh object: every static map empty, the file date null.\<close>

definition new_BCP47Languages :: BCP47Languages where
  "new_BCP47Languages = \<lparr> m_languageFilename = [], m_datasetByDescription = [],
     m_languageByDescription = [], m_languageBySubtag = [],
     m_extlangByDescription = [], m_extlangBySubtag = [],
     m_regionByDescription = [], m_regionBySubtag = [],
     m_scriptByDescription = [], m_scriptBySubtag = [],
     m_variantByDescription = [], m_variantBySubtag = [],
     m_grandfatheredByDescription = [], m_grandfatheredByTag = [],
     m_redundantByDescription = [], m_redundantByTag = [],
     m_fileDate = nullDate \<rparr>"

definition addLanguage :: "string \<Rightarrow> BCP47Language \<Rightarrow> BCP47Languages \<Rightarrow> BCP47Languages" where
  "addLanguage description language s =
     s\<lparr> m_datasetByDescription :=
          qmultimap_insert qstr_less description language (m_datasetByDescription s) \<rparr>"

text \<open>
  The body of the two loops of \<open>updateMaps\<close>: one record, reached under one description,
  goes into the two maps of its type. \<open>m_grandfatheredByDescription\<close> is the one
  multimap among them.
\<close>

definition updateMaps_insert ::
  "string \<Rightarrow> BCP47Language \<Rightarrow> BCP47Languages \<Rightarrow> BCP47Languages" where
  "updateMaps_insert description language s =
     (let subtag = m_subtag language; tag = m_tag language in
      case m_type language of
        LANGUAGE \<Rightarrow> s\<lparr> m_languageByDescription :=
                         qmap_insert qstr_less description language (m_languageByDescription s),
                       m_languageBySubtag :=
                         qmap_insert qstr_less subtag language (m_languageBySubtag s) \<rparr>
      | EXTLANG \<Rightarrow> s\<lparr> m_extlangByDescription :=
                         qmap_insert qstr_less description language (m_extlangByDescription s),
                      m_extlangBySubtag :=
                         qmap_insert qstr_less subtag language (m_extlangBySubtag s) \<rparr>
      | REGION \<Rightarrow> s\<lparr> m_regionByDescription :=
                         qmap_insert qstr_less description language (m_regionByDescription s),
                     m_regionBySubtag :=
                         qmap_insert qstr_less subtag language (m_regionBySubtag s) \<rparr>
      | SCRIPT \<Rightarrow> s\<lparr> m_scriptByDescription :=
                         qmap_insert qstr_less description language (m_scriptByDescription s),
                     m_scriptBySubtag :=
                         qmap_insert qstr_less subtag language (m_scriptBySubtag s) \<rparr>
      | VARIANT \<Rightarrow> s\<lparr> m_variantByDescription :=
                         qmap_insert qstr_less description language (m_variantByDescription s),
                      m_variantBySubtag :=
                         qmap_insert qstr_less subtag language (m_variantBySubtag s) \<rparr>
      | GRANDFATHERED \<Rightarrow> s\<lparr> m_grandfatheredByDescription :=
                         qmultimap_insert qstr_less description language
                           (m_grandfatheredByDescription s),
                      m_grandfatheredByTag :=
                         qmap_insert qstr_less tag language (m_grandfatheredByTag s) \<rparr>
      | REDUNDANT \<Rightarrow> s\<lparr> m_redundantByDescription :=
                         qmap_insert qstr_less description language (m_redundantByDescription s),
                      m_redundantByTag :=
                         qmap_insert qstr_less tag language (m_redundantByTag s) \<rparr>
      | BAD_TAG \<Rightarrow> s)"

text \<open>
  \<open>updateMaps\<close> clears the seven subtag and tag maps (the description maps are not
  cleared), then visits each unique description in key order and, under it, the records
  \<open>values(description)\<close> returns.
\<close>

definition updateMaps :: "BCP47Languages \<Rightarrow> BCP47Languages" where
  "updateMaps s =
     (let s0 = s\<lparr> m_languageBySubtag := [], m_extlangBySubtag := [],
                  m_regionBySubtag := [], m_scriptBySubtag := [],
                  m_variantBySubtag := [], m_grandfatheredByTag := [],
                  m_redundantByTag := [] \<rparr>
      in fold (\<lambda>description acc.
                 fold (\<lambda>language acc'. updateMaps_insert description language acc')
                      (qmap_values (m_datasetByDescription s) description) acc)
              (qmap_uniqueKeys (m_datasetByDescription s)) s0)"

text \<open>
  \<open>iainFileParsed\<close>: the slot that receives a parsed registry. It returns the new state
  and what it emitted.
\<close>

definition iainFileParsed ::
  "lang_map \<Rightarrow> QDate \<Rightarrow> bool \<Rightarrow> BCP47Languages \<Rightarrow> BCP47Languages \<times> event list" where
  "iainFileParsed languages fileDate noErrors s =
     (if m_fileDate s < fileDate then
        (if noErrors then
           (let s' = s\<lparr> m_fileDate := fileDate, m_datasetByDescription := languages \<rparr>
            in (s', [SaveToLocalFile (m_languageFilename s'), SendMessage (m_fileDate s')]))
         else (s, [ErrorSignal]))
      else (s, []))"

subsection \<open>Membership tests and lookups\<close>

definition isPrimaryLanguage :: "BCP47Languages \<Rightarrow> string \<Rightarrow> bool" where
  "isPrimaryLanguage s subtag = (subtag \<in> set (qmap_keys (m_languageBySubtag s)))"

definition isExtLang :: "BCP47Languages \<Rightarrow> string \<Rightarrow> bool" where
  "isExtLang s subtag = (subtag \<in> set (qmap_keys (m_extlangBySubtag s)))"

definition isVariant :: "BCP47Languages \<Rightarrow> string \<Rightarrow> bool" where
  "isVariant s subtag = (subtag \<in> set (qmap_keys (m_variantBySubtag s)))"

definition isRegion :: "BCP47Languages \<Rightarrow> string \<Rightarrow> bool" where
  "isRegion s subtag = (subtag \<in> set (qmap_keys (m_regionBySubtag s)))"

definition isScript :: "BCP47Languages \<Rightarrow> string \<Rightarrow> bool" where
  "isScript s subtag = (subtag \<in> set (qmap_keys (m_scriptBySubtag s)))"

definition isGrandfathered :: "BCP47Languages \<Rightarrow> string \<Rightarrow> bool" where
  "isGrandfathered s subtag = (subtag \<in> set (qmap_keys (m_grandfatheredByTag s)))"

definition isRedundant :: "BCP47Languages \<Rightarrow> string \<Rightarrow> bool" where
  "isRedundant s subtag = (subtag \<in> set (qmap_keys (m_redundantByTag s)))"

definition fromDescription :: "BCP47Languages \<Rightarrow> string \<Rightarrow> BCP47Language list" where
  "fromDescription s description = qmap_values (m_datasetByDescription s) description"

definition languageFromDescription :: "BCP47Languages \<Rightarrow> string \<Rightarrow> BCP47Language option" where
  "languageFromDescription s description = qmap_value (m_languageByDescription s) description"

definition languageFromSubtag :: "BCP47Languages \<Rightarrow> string \<Rightarrow> BCP47Language option" where
  "languageFromSubtag s subtag = qmap_value (m_languageBySubtag s) subtag"

subsection \<open>Classification of one subtag\<close>

definition checkPrimaryLanguage :: "BCP47Languages \<Rightarrow> string \<Rightarrow> TagType" where
  "checkPrimaryLanguage s v =
     (if v = ''i'' \<or> v = ''x'' \<or> (qstr_le ''qaa'' v \<and> qstr_le v ''qtz'')
      then PRIVATE_LANGUAGE
      else if isPrimaryLanguage s v then PRIMARY_LANGUAGE
      else NO_PRIMARY_LANGUAGE)"

definition checkExtendedlanguage :: "BCP47Languages \<Rightarrow> string \<Rightarrow> TagType" where
  "checkExtendedlanguage s v =
     (if isExtLang s v then EXTENDED_LANGUAGE else NO_EXTENDED_LANGUAGE)"

definition checkScript :: "BCP47Languages \<Rightarrow> string \<Rightarrow> TagType" where
  "checkScript s v =
     (if isScript s v then SCRIPT_LANGUAGE
      else if qstr_le ''Qaaa'' v \<and> qstr_le v ''Qabx'' then PRIVATE_SCRIPT
      else NO_SCRIPT)"

definition checkRegion :: "BCP47Languages \<Rightarrow> string \<Rightarrow> TagType" where
  "checkRegion s v =
     (if isRegion s v then REGIONAL_LANGUAGE
      else if v = ''AA'' \<or> (qstr_le ''QM'' v \<and> qstr_le v ''QZ'')
              \<or> (qstr_le ''XA'' v \<and> qstr_le v ''XZ'') \<or> v = ''ZZ''
      then PRIVATE_REGION
      else NO_REGION)"

definition checkVariant :: "BCP47Languages \<Rightarrow> string \<Rightarrow> TagType" where
  "checkVariant s v = (if isVariant s v then VARIANT_LANGUAGE else NO_VARIANT_LANGUAGE)"

definition checkGrandfathered :: "BCP47Languages \<Rightarrow> string \<Rightarrow> TagType" where
  "checkGrandfathered s v =
     (if isGrandfathered s v then GRANDFATHERED_LANGUAGE else NO_GRANDFATHERED_LANGUAGE)"

definition checkRedundant :: "BCP47Languages \<Rightarrow> string \<Rightarrow> TagType" where
  "checkRedundant s v = (if isVariant s v then REDUNDANT_LANGUAGE else NO_REDUNDANT_LANGUAGE)"


section \<open>Failures\<close>

text \<open>
  Dereferencing a null \<open>QSharedPointer\<close> and \<open>QVector::at\<close> outside the vector abort the
  program (or are undefined behaviour in a release build); the model returns them as
  errors.
\<close>

datatype error = NullPointerDereference | IndexOutOfRange

section \<open>testTag\<close>

record TagTestResult =
  type_res :: TagType
  start_res :: int
  length_res :: int
  text_res :: string

text \<open>\<open>new TagTestResult()\<close> value-initialises the structure.\<close>

definition new_TagTestResult :: TagTestResult where
  "new_TagTestResult = \<lparr> type_res = 0, start_res = 0, length_res = 0, text_res = [] \<rparr>"

text \<open>
  The three assignments through \<open>result\<close> of a classified candidate; \<open>result\<close> may be
  the null pointer.
\<close>

definition set_result :: "TagTestResult option \<Rightarrow> TagType \<Rightarrow> string \<Rightarrow> error + TagTestResult" where
  "set_result result type subvalue =
     (case result of
        None \<Rightarrow> Inl NullPointerDereference
      | Some r \<Rightarrow> Inr (r\<lparr> type_res := type, text_res := subvalue,
                          length_res := int (length subvalue) \<rparr>))"

text \<open>
  The body of \<open>if (c == '-' || pos == testValue.length())\<close>: the four checks in order,
  then the \<open>BAD_SUBTAG\<close> case, which sets the length and the type and leaves the text.
\<close>

definition close_candidate ::
  "BCP47Languages \<Rightarrow> string \<Rightarrow> TagTestResult option \<Rightarrow> error + TagTestResult" where
  "close_candidate s subvalue result =
     (if checkPrimaryLanguage s subvalue \<noteq> NO_PRIMARY_LANGUAGE
      then set_result result (checkPrimaryLanguage s subvalue) subvalue
      else if checkExtendedlanguage s subvalue \<noteq> NO_EXTENDED_LANGUAGE
      then set_result result (checkExtendedlanguage s subvalue) subvalue
      else if checkScript s subvalue \<noteq> NO_SCRIPT
      then set_result result (checkScript s subvalue) subvalue
      else if checkRegion s subvalue \<noteq> NO_REGION
      then set_result result (checkRegion s subvalue) subvalue
      else (case result of
              None \<Rightarrow> Inl NullPointerDereference
            | Some r \<Rightarrow> Inr (r\<lparr> length_res := int (length subvalue),
                                type_res := BAD_SUBTAG \<rparr>)))"

text \<open>
  The \<open>for\<close> loop over \<open>testValue\<close>, \<open>n\<close> being its length and \<open>i\<close> the index of the
  character at the head of the remaining input. \<open>subvalue\<close> is declared before the loop
  and only ever appended to. The last equation is the code after the loop.
\<close>

fun testTag_loop ::
  "BCP47Languages \<Rightarrow> int \<Rightarrow> int \<Rightarrow> string \<Rightarrow> string \<Rightarrow> TagTestResult option
     \<Rightarrow> TagTestResult list \<Rightarrow> error + TagTestResult list" where
  "testTag_loop s n i [] subvalue result results =
     Inr (case result of Some r \<Rightarrow> results @ [r] | None \<Rightarrow> results)"
| "testTag_loop s n i (c # cs) subvalue result results =
     (let pos = i + 1;
          subvalue1 = (if c \<noteq> CHR ''-'' \<and> pos \<le> n then subvalue @ [c] else subvalue);
          result1 = (if c \<noteq> CHR ''-'' \<and> pos \<le> n
                     then (case result of
                             None \<Rightarrow> Some (new_TagTestResult\<lparr> start_res := i \<rparr>)
                           | Some r \<Rightarrow> Some r)
                     else result)
      in if c = CHR ''-'' \<or> pos = n
         then (case close_candidate s subvalue1 result1 of
                 Inl e \<Rightarrow> Inl e
               | Inr r \<Rightarrow> testTag_loop s n (i + 1) cs subvalue1 None (results @ [r]))
         else testTag_loop s n (i + 1) cs subvalue1 result1 results)"

definition testTag :: "BCP47Languages \<Rightarrow> string \<Rightarrow> error + TagTestResult list" where
  "testTag s tag =
     (let testValue = removeWhitespace tag
      in testTag_loop s (int (length testValue)) 0 testValue [] None [])"

section \<open>The tag builders\<close>

text \<open>
  Each returns the string built, \<open>QString()\<close> being the empty string. In the
  concatenations the pointers are dereferenced from left to right.
\<close>

definition languageTag :: "BCP47Languages \<Rightarrow> string \<Rightarrow> string \<Rightarrow> error + string" where
  "languageTag s languageName regionName =
     (let tag = qmap_value (m_languageBySubtag s) languageName in
      if regionName = [] then
        (case tag of Some t \<Rightarrow> Inr (m_subtag t) | None \<Rightarrow> Inr [])
      else
        (let regTag = qmap_value (m_regionBySubtag s) regionName in
         case tag of
           Some t \<Rightarrow> (case regTag of
                        Some r \<Rightarrow> Inr (m_subtag t @ ''-'' @ m_subtag r)
                      | None \<Rightarrow> Inr [])
         | None \<Rightarrow> Inr []))"

definition extLangTag :: "BCP47Languages \<Rightarrow> string \<Rightarrow> error + string" where
  "extLangTag s extlanName =
     (case qmap_value (m_languageBySubtag s) extlanName of
        None \<Rightarrow> Inl NullPointerDereference
      | Some langTag \<Rightarrow>
          (case m_prefix langTag of
             [] \<Rightarrow> Inl IndexOutOfRange
           | p # _ \<Rightarrow> Inr (p @ ''-'' @ m_preferredValue langTag)))"

definition scriptTag :: "BCP47Languages \<Rightarrow> string \<Rightarrow> string \<Rightarrow> error + string" where
  "scriptTag s languageName scriptName =
     (let tags = qmap_value (m_languageBySubtag s) languageName;
          scriptTag = qmap_value (m_scriptBySubtag s) scriptName
      in if tags \<noteq> None \<or> scriptTag \<noteq> None then
           (case tags of
              None \<Rightarrow> Inl NullPointerDereference
            | Some t \<Rightarrow>
                (case m_prefix t of
                   [] \<Rightarrow> Inl IndexOutOfRange
                 | p # _ \<Rightarrow>
                     (case scriptTag of
                        None \<Rightarrow> Inl NullPointerDereference
                      | Some sc \<Rightarrow> Inr (p @ ''-'' @ m_subtag sc @ ''-'' @ m_subtag t))))
         else Inr [])"

definition variantTag :: "BCP47Languages \<Rightarrow> string \<Rightarrow> string \<Rightarrow> error + string" where
  "variantTag s scriptName region =
     (let tags = qmap_value (m_variantBySubtag s) scriptName in
      if region = [] then
        (case tags of
           Some t \<Rightarrow> (case m_prefix t of
                        [] \<Rightarrow> Inl IndexOutOfRange
                      | p # _ \<Rightarrow> Inr (p @ ''-'' @ m_subtag t))
         | None \<Rightarrow> Inr [])
      else
        (let regTag = qmap_value (m_regionBySubtag s) region in
         if tags \<noteq> None \<or> regTag \<noteq> None then
           (case tags of
              None \<Rightarrow> Inl NullPointerDereference
            | Some t \<Rightarrow>
                (case m_prefix t of
                   [] \<Rightarrow> Inl IndexOutOfRange
                 | p # _ \<Rightarrow>
                     (case regTag of
                        None \<Rightarrow> Inl NullPointerDereference
                      | Some r \<Rightarrow> Inr (p @ ''-'' @ m_subtag r @ ''-'' @ m_subtag t))))
         else Inr []))"


section \<open>LanguageParser\<close>

text \<open>The flags of \<open>LanguageParser::Error\<close>, combined with \<open>OR\<close>.\<close>

type_synonym Errors = "32 word"

definition NO_ERROR :: Errors where "NO_ERROR = 0"
definition BAD_FILE_DATE :: Errors where "BAD_FILE_DATE = 1"
definition EMPTY_NAME :: Errors where "EMPTY_NAME = 2"
definition EMPTY_VALUE :: Errors where "EMPTY_VALUE = 4"
definition UNKNOWN_TAG_TYPE :: Errors where "UNKNOWN_TAG_TYPE = 8"

datatype State = UNKNOWN | STARTED | FINISHED | DESCRIPTION | COMMENT

definition TAGTYPES :: "string list" where
  "TAGTYPES = [''type'', ''tag'', ''subtag'', ''description'', ''added'',
     ''suppress-script'', ''prefix'', ''macrolanguage'', ''deprecated'',
     ''preferred-value'', ''scope'', ''comments'']"

text \<open>\<open>TAGTYPES.contains(type, Qt::CaseInsensitive)\<close>.\<close>

definition isType :: "string \<Rightarrow> bool" where
  "isType t = list_ex (\<lambda>x. toLower x = toLower t) TAGTYPES"

text \<open>The local variables of \<open>parse\<close>, and the member \<open>m_lineNumber\<close>.\<close>

record parser =
  line_v :: string
  state_v :: State
  dateFound :: bool
  language_v :: "BCP47Language option"
  count_v :: int
  languageMap :: lang_map
  errors_v :: "(int, Errors) qmap"
  fileDate_v :: QDate
  name_v :: string
  value_v :: string
  m_lineNumber :: int

definition new_parser :: parser where
  "new_parser = \<lparr> line_v = [], state_v = UNKNOWN, dateFound = False, language_v = None,
     count_v = 0, languageMap = [], errors_v = [], fileDate_v = nullDate, name_v = [],
     value_v = [], m_lineNumber = 0 \<rparr>"

definition errors_insert :: "Errors \<Rightarrow> parser \<Rightarrow> parser" where
  "errors_insert e p =
     p\<lparr> errors_v := qmultimap_insert (<) (m_lineNumber p) e (errors_v p) \<rparr>"

text \<open>The loop that files a finished record under each of its descriptions.\<close>

definition insert_descriptions :: "BCP47Language \<Rightarrow> lang_map \<Rightarrow> lang_map" where
  "insert_descriptions language m =
     fold (\<lambda>description acc. qmultimap_insert qstr_less description language acc)
          (m_descriptions language) m"

text \<open>The branch \<open>line == "%%"\<close>.\<close>

definition parse_separator :: "parser \<Rightarrow> parser" where
  "parse_separator p =
     (let p1 = (case language_v p of
                  Some l \<Rightarrow> p\<lparr> languageMap := insert_descriptions l (languageMap p),
                               language_v := None, state_v := FINISHED \<rparr>
                | None \<Rightarrow> p);
          p2 = (if state_v p1 \<noteq> STARTED
                then p1\<lparr> state_v := STARTED, language_v := Some new_BCP47Language \<rparr>
                else p1)
      in p2\<lparr> line_v := [] \<rparr>)"

text \<open>
  The \<open>switch (state)\<close> of a line that runs over, followed by \<open>line.clear()\<close>. The
  two calls go through \<open>language\<close> unguarded.
\<close>

definition parse_continuation :: "parser \<Rightarrow> error + parser" where
  "parse_continuation p =
     (case state_v p of
        DESCRIPTION \<Rightarrow>
          (case language_v p of
             None \<Rightarrow> Inl NullPointerDereference
           | Some l \<Rightarrow> Inr (p\<lparr> language_v := Some (appendDescription (line_v p) l),
                               line_v := [] \<rparr>))
      | COMMENT \<Rightarrow>
          (case language_v p of
             None \<Rightarrow> Inl NullPointerDereference
           | Some l \<Rightarrow> Inr (p\<lparr> language_v := Some (appendComment (line_v p) l),
                               line_v := [] \<rparr>))
      | _ \<Rightarrow> Inr (p\<lparr> line_v := [] \<rparr>))"

text \<open>\<open>if (language) language->set...(value)\<close>, then \<open>line.clear()\<close>.\<close>

definition set_guarded :: "(BCP47Language \<Rightarrow> BCP47Language) \<Rightarrow> parser \<Rightarrow> parser" where
  "set_guarded f p =
     (case language_v p of
        Some l \<Rightarrow> p\<lparr> language_v := Some (f l), line_v := [] \<rparr>
      | None \<Rightarrow> p\<lparr> line_v := [] \<rparr>)"

text \<open>\<open>language->setType(t)\<close>, which has no guard, then \<open>line.clear()\<close>.\<close>

definition setType_unguarded :: "Type \<Rightarrow> parser \<Rightarrow> error + parser" where
  "setType_unguarded t p =
     (case language_v p of
        Some l \<Rightarrow> Inr (p\<lparr> language_v := Some (l\<lparr> m_type := t \<rparr>), line_v := [] \<rparr>)
      | None \<Rightarrow> Inl NullPointerDereference)"

text \<open>
  The branch \<open>size == 2 && nameIsType\<close>: the field named by the first piece of the line
  (\<open>split0\<close>) takes \<open>value\<close>. \<open>fromString\<close> stands for \<open>QDate::fromString(_, Qt::ISODate)\<close>.
\<close>

definition parse_field :: "(string \<Rightarrow> QDate) \<Rightarrow> string \<Rightarrow> parser \<Rightarrow> error + parser" where
  "parse_field fromString split0 p =
     (let lName = toLower (toLower (trimmed split0));
          val = value_v p;
          lValue = toLower val
      in if lName = ''type'' then
           (if lValue = ''language'' then setType_unguarded LANGUAGE p
            else if lValue = ''extlang'' then setType_unguarded EXTLANG p
            else if lValue = ''script'' then setType_unguarded SCRIPT p
            else if lValue = ''region'' then setType_unguarded REGION p
            else if lValue = ''variant'' then setType_unguarded VARIANT p
            else if lValue = ''grandfathered'' then setType_unguarded GRANDFATHERED p
            else if lValue = ''redundant'' then setType_unguarded REDUNDANT p
            else Inr ((errors_insert UNKNOWN_TAG_TYPE p)\<lparr> line_v := [] \<rparr>))
         else if lName = ''tag'' then Inr (set_guarded (\<lambda>l. l\<lparr> m_tag := val \<rparr>) p)
         else if lName = ''subtag'' then Inr (set_guarded (\<lambda>l. l\<lparr> m_subtag := val \<rparr>) p)
         else if lName = ''description'' then
           Inr (case language_v p of
                  Some l \<Rightarrow> p\<lparr> language_v := Some (addDescription val l),
                               count_v := count_v p + 1, state_v := DESCRIPTION,
                               line_v := [] \<rparr>
                | None \<Rightarrow> p\<lparr> line_v := [] \<rparr>)
         else if lName = ''added'' then
           Inr (set_guarded (\<lambda>l. l\<lparr> m_added := fromString val \<rparr>) p)
         else if lName = ''suppress-script'' then
           Inr (set_guarded (\<lambda>l. l\<lparr> m_suppressScriptLang := val \<rparr>) p)
         else if lName = ''prefix'' then Inr (set_guarded (addPrefix val) p)
         else if lName = ''macrolanguage'' then
           Inr (set_guarded (\<lambda>l. l\<lparr> m_macrolanguageName := val \<rparr>) p)
         else if lName = ''deprecated'' then
           Inr (set_guarded (\<lambda>l. l\<lparr> m_deprecated := True \<rparr>) p)
         else if lName = ''preferred-value'' then
           Inr (set_guarded (\<lambda>l. l\<lparr> m_preferredValue := val \<rparr>) p)
         else if lName = ''scope'' then
           (if val = ''macrolanguge'' then
              Inr (set_guarded (\<lambda>l. l\<lparr> m_macrolanguage := True \<rparr>) p)
            else if val = ''collection'' then
              Inr (set_guarded (\<lambda>l. l\<lparr> m_collection := True \<rparr>) p)
            else Inr (p\<lparr> line_v := [] \<rparr>))
         else if lName = ''comments'' then
           Inr (case language_v p of
                  Some l \<Rightarrow> p\<lparr> language_v := Some (l\<lparr> m_comments := val \<rparr>),
                               state_v := COMMENT, line_v := [] \<rparr>
                | None \<Rightarrow> p\<lparr> line_v := [] \<rparr>)
         else Inr (errors_insert UNKNOWN_TAG_TYPE p))"

text \<open>
  The branch \<open>line.contains(":")\<close>, by the number of non-empty pieces between colons:
  none (the \<open>continue\<close>, which leaves \<open>line\<close> as it is), one, two, more than two.
\<close>

definition parse_colon_line :: "(string \<Rightarrow> QDate) \<Rightarrow> parser \<Rightarrow> error + parser" where
  "parse_colon_line fromString p =
     (let p0 = p\<lparr> name_v := [], value_v := [] \<rparr> in
      case split_skipEmpty (CHR '':'') (line_v p) of
        [] \<Rightarrow> Inr (errors_insert (EMPTY_NAME OR EMPTY_VALUE) p0)
      | [a] \<Rightarrow> parse_continuation (p0\<lparr> value_v := line_v p \<rparr>)
      | [a, b] \<Rightarrow>
          (let name = trimmed a;
               nameIsType = isType name;
               val = trimmed b;
               e = (if state_v p \<noteq> COMMENT
                    then (if \<not> nameIsType then UNKNOWN_TAG_TYPE else NO_ERROR)
                         OR (if val = [] then EMPTY_VALUE else NO_ERROR)
                    else NO_ERROR);
               p1 = p0\<lparr> name_v := name, value_v := val \<rparr>;
               p2 = (if e \<noteq> NO_ERROR then errors_insert EMPTY_NAME p1 else p1)
           in if nameIsType then parse_field fromString a p2 else parse_continuation p2)
      | a # b # rest \<Rightarrow>
          (let name = trimmed a;
               nameIsType = isType name;
               val = (if nameIsType
                      then foldl (\<lambda>v piece. v @ '':'' @ piece) name (b # rest)
                      else foldl (\<lambda>v piece. v @ '':'' @ piece) b rest);
               p1 = p0\<lparr> name_v := name, value_v := trimmed val \<rparr>
           in if nameIsType then parse_field fromString a p1 else parse_continuation p1))"

text \<open>What the loop does at a newline character.\<close>

definition parse_newline :: "(string \<Rightarrow> QDate) \<Rightarrow> parser \<Rightarrow> error + parser" where
  "parse_newline fromString p0 =
     (let p = p0\<lparr> m_lineNumber := m_lineNumber p0 + 1 \<rparr> in
      if \<not> dateFound p then
        (if startsWith_ci (line_v p) ''file-date'' then
           (case split (CHR '':'') (line_v p) of
              [a, b] \<Rightarrow> Inr (p\<lparr> fileDate_v := fromString (trimmed b), dateFound := True,
                                line_v := [] \<rparr>)
            | _ \<Rightarrow> Inr p)
         else Inr (errors_insert BAD_FILE_DATE p))
      else if line_v p = ''%%'' then Inr (parse_separator p)
      else if CHR '':'' \<in> set (line_v p) then parse_colon_line fromString p
      else parse_continuation p)"

text \<open>The loop over the characters of \<open>m_data\<close>.\<close>

fun parse_loop :: "(string \<Rightarrow> QDate) \<Rightarrow> string \<Rightarrow> parser \<Rightarrow> error + parser" where
  "parse_loop fromString [] p = Inr p"
| "parse_loop fromString (c # cs) p =
     (if c = CHR 0x0A then
        (case parse_newline fromString p of
           Inl e \<Rightarrow> Inl e
         | Inr p' \<Rightarrow> parse_loop fromString cs p')
      else parse_loop fromString cs (p\<lparr> line_v := line_v p @ [c] \<rparr>))"

text \<open>
  What \<open>parse\<close> emits: the arguments of \<open>parseCompleted\<close>, and the error map (sent with
  \<open>parsingErrors\<close> when it is not empty).
\<close>

record parse_output =
  languages_out :: lang_map
  fileDate_out :: QDate
  noErrors_out :: bool
  errors_out :: "(int, Errors) qmap"

definition parse :: "(string \<Rightarrow> QDate) \<Rightarrow> string \<Rightarrow> error + parse_output" where
  "parse fromString m_data =
     (case parse_loop fromString m_data new_parser of
        Inl e \<Rightarrow> Inl e
      | Inr p \<Rightarrow>
          Inr \<lparr> languages_out = (case language_v p of
                                   Some l \<Rightarrow> insert_descriptions l (languageMap p)
                                 | None \<Rightarrow> languageMap p),
                fileDate_out = fileDate_v p,
                noErrors_out = (errors_v p = []),
                errors_out = errors_v p \<rparr>)"

text \<open>A document given line by line: every line is followed by a newline character.\<close>

definition document :: "string list \<Rightarrow> string" where
  "document ls = concat (map (\<lambda>l. l @ [CHR 0x0A]) ls)"


section \<open>Sample data\<close>

text \<open>
  A small registry, loaded the way \<open>loadYamlFile\<close> does it: every record is added under
  each of its descriptions, then \<open>updateMaps\<close> runs.
\<close>

definition english :: BCP47Language where
  "english = new_BCP47Language\<lparr> m_subtag := ''en'', m_descriptions := [''English''] \<rparr>"

definition french :: BCP47Language where
  "french = new_BCP47Language\<lparr> m_subtag := ''fr'', m_descriptions := [''French''] \<rparr>"

definition slovenian :: BCP47Language where
  "slovenian = new_BCP47Language\<lparr> m_subtag := ''sl'', m_descriptions := [''Slovenian''],
     m_prefix := [''sl''] \<rparr>"

definition united_kingdom :: BCP47Language where
  "united_kingdom = new_BCP47Language\<lparr> m_type := REGION, m_subtag := ''GB'',
     m_descriptions := [''United Kingdom''] \<rparr>"

definition latin :: BCP47Language where
  "latin = new_BCP47Language\<lparr> m_type := SCRIPT, m_subtag := ''Latn'',
     m_descriptions := [''Latin''] \<rparr>"

definition nedis :: BCP47Language where
  "nedis = new_BCP47Language\<lparr> m_type := VARIANT, m_subtag := ''nedis'',
     m_descriptions := [''Natisone dialect'', ''Nadiza dialect''], m_prefix := [''sl''] \<rparr>"

definition zh_Hans :: BCP47Language where
  "zh_Hans = new_BCP47Language\<lparr> m_type := REDUNDANT, m_tag := ''zh-Hans'',
     m_descriptions := [''simplified Chinese''] \<rparr>"

definition load :: "BCP47Language list \<Rightarrow> QDate \<Rightarrow> BCP47Languages" where
  "load records date =
     updateMaps
       (fold (\<lambda>language acc.
                fold (\<lambda>description acc'. addLanguage description language acc')
                     (m_descriptions language) acc)
             records (new_BCP47Languages\<lparr> m_fileDate := date \<rparr>))"

text \<open>The held dataset, dated 2021-08-06 (Julian day 2459433).\<close>

definition sample_index :: BCP47Languages where
  "sample_index =
     load [english, slovenian, united_kingdom, latin, nedis, zh_Hans] 2459433"

text \<open>A later registry that holds French only.\<close>

definition french_dataset :: lang_map where
  "french_dataset = insert_descriptions french []"



section \<open>Facts about the enumerations\<close>

lemmas TagType_defs = PRIMARY_LANGUAGE_def PRIVATE_LANGUAGE_def NO_PRIMARY_LANGUAGE_def
  EXTENDED_LANGUAGE_def EXTLANG_MISMATCH_def NO_EXTENDED_LANGUAGE_def SCRIPT_LANGUAGE_def
  PRIVATE_SCRIPT_def NO_SCRIPT_def REGIONAL_LANGUAGE_def PRIVATE_REGION_def NO_REGION_def
  VARIANT_LANGUAGE_def NO_VARIANT_LANGUAGE_def GRANDFATHERED_LANGUAGE_def
  NO_GRANDFATHERED_LANGUAGE_def REDUNDANT_LANGUAGE_def NO_REDUNDANT_LANGUAGE_def
  BAD_SUBTAG_def

section \<open>testTag\<close>

text \<open>
  Claim C1. The claim: with "en" a registered language and "GB" a registered region,
  \<open>testTag\<close> on "en-GB" gives a PrimaryLanguage token "en" at 0 of length 2, then a
  RegionalLanguage token "GB" at 3 of length 2. The code does not clear \<open>subvalue\<close>
  between candidates: the second candidate it classifies is "enGB", so the second token
  is a \<open>BAD_SUBTAG\<close> at 3 of length 4 whose text was never set.
\<close>

theorem testTag_en_GB:
  "isPrimaryLanguage sample_index ''en'' \<and> isRegion sample_index ''GB'' \<and>
   testTag sample_index ''en-GB'' =
     Inr [\<lparr> type_res = PRIMARY_LANGUAGE, start_res = 0, length_res = 2, text_res = ''en'' \<rparr>,
          \<lparr> type_res = BAD_SUBTAG, start_res = 3, length_res = 4, text_res = [] \<rparr>]"
  by code_simp

text \<open>
  Whatever the index holds, a run of \<open>testTag\<close> on "en-GB" that returns gives the second
  token the length 4.
\<close>

lemma testTag_en_GB_lengths:
  "testTag s ''en-GB'' = Inr rs \<Longrightarrow> map length_res rs = [2, 4] \<and> map start_res rs = [0, 3]"
  by (auto simp: testTag_def removeWhitespace_def isSpace_def close_candidate_def set_result_def
        new_TagTestResult_def Let_def split: if_splits)

text \<open>
  Claim C2. The claim: \<open>testTag\<close> returns on every input, and an empty candidate (a
  leading dash, a doubled dash, a dash at the end) yields a \<open>BAD_SUBTAG\<close> token. In the
  code \<open>result\<close> is allocated at the first character of a candidate only, and a dash
  writes through it unguarded: on every input that starts with a dash, and on "en--GB",
  the null pointer is dereferenced. A dash at the end closes the candidate before it, and
  the empty candidate after it yields no token.
\<close>

theorem testTag_empty_candidate:
  "testTag s (CHR ''-'' # tag) = Inl NullPointerDereference \<and>
   testTag sample_index ''en--GB'' = Inl NullPointerDereference \<and>
   testTag sample_index ''en-'' =
     Inr [\<lparr> type_res = PRIMARY_LANGUAGE, start_res = 0, length_res = 2, text_res = ''en'' \<rparr>]"
proof -
  have "testTag s (CHR ''-'' # tag) = Inl NullPointerDereference"
    by (simp add: testTag_def removeWhitespace_def isSpace_def close_candidate_def
          set_result_def)
  moreover have "testTag sample_index ''en--GB'' = Inl NullPointerDereference"
    by code_simp
  moreover have "testTag sample_index ''en-'' =
     Inr [\<lparr> type_res = PRIMARY_LANGUAGE, start_res = 0, length_res = 2, text_res = ''en'' \<rparr>]"
    by code_simp
  ultimately show ?thesis by simp
qed

section \<open>The tag builders\<close>

text \<open>
  Claim C3. The claim: a builder returns the empty string whenever a name does not
  resolve. In the code \<open>extLangTag\<close> has no test at all, and \<open>scriptTag\<close> and
  \<open>variantTag\<close> (with a region) test the two pointers with "or": when exactly one name
  resolves, the null pointer of the other is dereferenced (or, before that, the first
  prefix of a record without prefixes is read). None of these calls returns a string.
\<close>

theorem tag_builders_unresolved:
  "(qmap_value (m_languageBySubtag s) extlanName = None \<longrightarrow>
      extLangTag s extlanName = Inl NullPointerDereference) \<and>
   (qmap_value (m_languageBySubtag s) languageName = None \<and>
    qmap_value (m_scriptBySubtag s) scriptName \<noteq> None \<longrightarrow>
      scriptTag s languageName scriptName = Inl NullPointerDereference) \<and>
   (qmap_value (m_languageBySubtag s) languageName \<noteq> None \<and>
    qmap_value (m_scriptBySubtag s) scriptName = None \<longrightarrow>
      isl (scriptTag s languageName scriptName)) \<and>
   (region \<noteq> [] \<and> qmap_value (m_variantBySubtag s) variantName = None \<and>
    qmap_value (m_regionBySubtag s) region \<noteq> None \<longrightarrow>
      variantTag s variantName region = Inl NullPointerDereference) \<and>
   (region \<noteq> [] \<and> qmap_value (m_variantBySubtag s) variantName \<noteq> None \<and>
    qmap_value (m_regionBySubtag s) region = None \<longrightarrow>
      isl (variantTag s variantName region))"
  by (auto simp: extLangTag_def scriptTag_def variantTag_def split: option.splits list.splits)

theorem tag_builders_unresolved_witness:
  "extLangTag sample_index ''zz'' = Inl NullPointerDereference \<and>
   scriptTag sample_index ''zz'' ''Latn'' = Inl NullPointerDereference \<and>
   isl (scriptTag sample_index ''sl'' ''Zzzz'') \<and>
   variantTag sample_index ''zz'' ''GB'' = Inl NullPointerDereference \<and>
   isl (variantTag sample_index ''nedis'' ''ZZ'')"
proof -
  have h: "qmap_value (m_languageBySubtag sample_index) ''zz'' = None"
    "qmap_value (m_scriptBySubtag sample_index) ''Latn'' \<noteq> None"
    "qmap_value (m_languageBySubtag sample_index) ''sl'' \<noteq> None"
    "qmap_value (m_scriptBySubtag sample_index) ''Zzzz'' = None"
    "qmap_value (m_variantBySubtag sample_index) ''zz'' = None"
    "qmap_value (m_regionBySubtag sample_index) ''GB'' \<noteq> None"
    "qmap_value (m_variantBySubtag sample_index) ''nedis'' \<noteq> None"
    "qmap_value (m_regionBySubtag sample_index) ''ZZ'' = None"
    by code_simp+
  show ?thesis
    using h tag_builders_unresolved [of sample_index "''zz''" "''zz''" "''Latn''" "''GB''" "''zz''"]
      tag_builders_unresolved [of sample_index "''zz''" "''sl''" "''Zzzz''" "''ZZ''" "''nedis''"]
    by simp
qed

text \<open>\<open>languageTag\<close> tests both pointers and does return the empty string.\<close>

lemma languageTag_unresolved:
  "qmap_value (m_languageBySubtag s) languageName = None \<or>
   (regionName \<noteq> [] \<and> qmap_value (m_regionBySubtag s) regionName = None)
   \<Longrightarrow> languageTag s languageName regionName = Inr []"
  by (auto simp: languageTag_def split: option.splits)

section \<open>Classification\<close>

text \<open>
  Claim C8. The claim: only "i", "x" and three-letter codes from "qaa" to "qtz" are
  \<open>PRIVATE_LANGUAGE\<close>; strings of other lengths inside the range are not. The code
  compares the strings and never looks at the length: every string that starts with
  "qb" is inside the range, and so is "qaaa".
\<close>

theorem checkPrimaryLanguage_other_lengths:
  "checkPrimaryLanguage s (''qb'' @ t) = PRIVATE_LANGUAGE \<and>
   checkPrimaryLanguage s ''qb'' = PRIVATE_LANGUAGE \<and>
   checkPrimaryLanguage s ''qaaa'' = PRIVATE_LANGUAGE \<and>
   PRIVATE_LANGUAGE \<noteq> PRIMARY_LANGUAGE \<and> PRIVATE_LANGUAGE \<noteq> NO_PRIMARY_LANGUAGE"
  by (simp add: checkPrimaryLanguage_def TagType_defs)

text \<open>
  Claim C10. \<open>checkRedundant\<close> answers \<open>REDUNDANT_LANGUAGE\<close> exactly for the keys of the
  variant subtag map and \<open>NO_REDUNDANT_LANGUAGE\<close> for every other string; so a registered
  redundant tag that is no variant subtag is answered \<open>NO_REDUNDANT_LANGUAGE\<close>.
\<close>

theorem checkRedundant_consults_variants:
  "(checkRedundant s v = REDUNDANT_LANGUAGE \<longleftrightarrow> v \<in> set (qmap_keys (m_variantBySubtag s))) \<and>
   (checkRedundant s v = NO_REDUNDANT_LANGUAGE \<longleftrightarrow> v \<notin> set (qmap_keys (m_variantBySubtag s))) \<and>
   (isRedundant s v \<and> \<not> isVariant s v \<longrightarrow> checkRedundant s v = NO_REDUNDANT_LANGUAGE)"
  by (simp add: checkRedundant_def isVariant_def TagType_defs)

theorem checkRedundant_consults_variants_witness:
  "isRedundant sample_index ''zh-Hans'' \<and> \<not> isVariant sample_index ''zh-Hans'' \<and>
   checkRedundant sample_index ''zh-Hans'' = NO_REDUNDANT_LANGUAGE"
proof -
  have h: "isRedundant sample_index ''zh-Hans''" "\<not> isVariant sample_index ''zh-Hans''"
    by code_simp+
  show ?thesis
    using h checkRedundant_consults_variants [of sample_index "''zh-Hans''"] by simp
qed

section \<open>Refreshing the dataset\<close>

text \<open>
  Claim C9. When the parsed file date is equal to or earlier than the held one,
  \<open>iainFileParsed\<close> leaves the whole state (dataset and file date included) as it was
  and emits nothing; the state changes only when the parsed date is strictly later.
\<close>

theorem iainFileParsed_not_newer:
  "(fileDate \<le> m_fileDate s \<longrightarrow> iainFileParsed languages fileDate noErrors s = (s, [])) \<and>
   (fst (iainFileParsed languages fileDate noErrors s) \<noteq> s \<longrightarrow> m_fileDate s < fileDate)"
  by (auto simp: iainFileParsed_def Let_def)

theorem iainFileParsed_not_newer_witness:
  "(2459433::int) \<le> m_fileDate sample_index \<and>
   iainFileParsed french_dataset 2459433 True sample_index = (sample_index, []) \<and>
   iainFileParsed french_dataset 2459000 True sample_index = (sample_index, [])"
proof -
  have h: "(2459433::int) \<le> m_fileDate sample_index" "(2459000::int) \<le> m_fileDate sample_index"
    by code_simp+
  show ?thesis
    using h iainFileParsed_not_newer [of 2459433 sample_index french_dataset True]
      iainFileParsed_not_newer [of 2459000 sample_index french_dataset True]
    by simp
qed


text \<open>\<open>iainFileParsed\<close> assigns the file date and the dataset only: none of the
  fourteen maps of the seven types is written.\<close>

lemma iainFileParsed_keeps_maps:
  "m_languageByDescription (fst (iainFileParsed languages fileDate noErrors s)) =
     m_languageByDescription s \<and>
   m_languageBySubtag (fst (iainFileParsed languages fileDate noErrors s)) =
     m_languageBySubtag s \<and>
   m_extlangByDescription (fst (iainFileParsed languages fileDate noErrors s)) =
     m_extlangByDescription s \<and>
   m_extlangBySubtag (fst (iainFileParsed languages fileDate noErrors s)) =
     m_extlangBySubtag s \<and>
   m_regionByDescription (fst (iainFileParsed languages fileDate noErrors s)) =
     m_regionByDescription s \<and>
   m_regionBySubtag (fst (iainFileParsed languages fileDate noErrors s)) =
     m_regionBySubtag s \<and>
   m_scriptByDescription (fst (iainFileParsed languages fileDate noErrors s)) =
     m_scriptByDescription s \<and>
   m_scriptBySubtag (fst (iainFileParsed languages fileDate noErrors s)) =
     m_scriptBySubtag s \<and>
   m_variantByDescription (fst (iainFileParsed languages fileDate noErrors s)) =
     m_variantByDescription s \<and>
   m_variantBySubtag (fst (iainFileParsed languages fileDate noErrors s)) =
     m_variantBySubtag s \<and>
   m_grandfatheredByDescription (fst (iainFileParsed languages fileDate noErrors s)) =
     m_grandfatheredByDescription s \<and>
   m_grandfatheredByTag (fst (iainFileParsed languages fileDate noErrors s)) =
     m_grandfatheredByTag s \<and>
   m_redundantByDescription (fst (iainFileParsed languages fileDate noErrors s)) =
     m_redundantByDescription s \<and>
   m_redundantByTag (fst (iainFileParsed languages fileDate noErrors s)) =
     m_redundantByTag s"
  by (simp add: iainFileParsed_def Let_def)

text \<open>
  Claim C7. The claim: after a newer registry was parsed without errors, every index is
  rebuilt from the new records, and no lookup returns a record of the previous dataset
  only. \<open>iainFileParsed\<close> replaces the dataset and the date and does not call
  \<open>updateMaps\<close>: with the sample index held and a later registry that holds French only,
  the replacement is announced, the dataset holds French alone, and the lookups by subtag
  and by description still return the English record, and none for "fr".
\<close>

theorem iainFileParsed_stale_maps:
  "snd (iainFileParsed french_dataset 2459800 True sample_index) =
     [SaveToLocalFile [], SendMessage 2459800] \<and>
   m_datasetByDescription (fst (iainFileParsed french_dataset 2459800 True sample_index)) =
     [(''French'', french)] \<and>
   fromDescription (fst (iainFileParsed french_dataset 2459800 True sample_index))
     ''English'' = [] \<and>
   languageFromSubtag (fst (iainFileParsed french_dataset 2459800 True sample_index)) ''en'' =
     Some english \<and>
   languageFromDescription (fst (iainFileParsed french_dataset 2459800 True sample_index))
     ''English'' = Some english \<and>
   isPrimaryLanguage (fst (iainFileParsed french_dataset 2459800 True sample_index)) ''en'' \<and>
   languageFromSubtag (fst (iainFileParsed french_dataset 2459800 True sample_index)) ''fr'' =
     None"
  by code_simp

text \<open>
  \<open>updateMaps\<close> itself, run on the state after the replacement, rebuilds the subtag maps
  and leaves the old entries of the description maps in place.
\<close>

lemma updateMaps_keeps_descriptions:
  "languageFromDescription
     (updateMaps (fst (iainFileParsed french_dataset 2459800 True sample_index)))
     ''English'' = Some english \<and>
   languageFromSubtag
     (updateMaps (fst (iainFileParsed french_dataset 2459800 True sample_index)))
     ''en'' = None \<and>
   languageFromSubtag
     (updateMaps (fst (iainFileParsed french_dataset 2459800 True sample_index)))
     ''fr'' = Some french"
  by code_simp

section \<open>The parser\<close>











text \<open>
  A first line "File-Date: soon" is accepted as it is: the date is whatever the
  conversion returns, no error is recorded, and the record that follows is read.
\<close>

lemma parse_unparsable_date:
  "parse f (document [''File-Date: soon'', ''%%'', ''Type: language'', ''Subtag: en'',
                      ''Description: English'']) =
     Inr \<lparr> languages_out = [(''English'', english)], fileDate_out = f ''soon'',
           noErrors_out = True, errors_out = [] \<rparr>"
  by code_simp

text \<open>
  Claim C5. The claim: when the value of a line holds further colons, the value stored is
  what follows the first colon, colons included, without the field name. For a
  recognised field name the code starts the reassembled value from the name itself: the
  comment of "Comments: at 12:30" is stored as "Comments: at 12:30". With a single colon
  the value is what follows it.
\<close>

theorem parse_value_with_colons:
  "parse f (document [''File-Date: 2021-08-06'', ''%%'', ''Type: language'', ''Subtag: en'',
                      ''Description: English'', ''Comments: at 12:30'']) =
     Inr \<lparr> languages_out = [(''English'', english\<lparr> m_comments := ''Comments: at 12:30'' \<rparr>)],
           fileDate_out = f ''2021-08-06'', noErrors_out = True, errors_out = [] \<rparr> \<and>
   parse f (document [''File-Date: 2021-08-06'', ''%%'', ''Type: language'', ''Subtag: en'',
                      ''Description: English'', ''Comments: see note'']) =
     Inr \<lparr> languages_out = [(''English'', english\<lparr> m_comments := ''see note'' \<rparr>)],
           fileDate_out = f ''2021-08-06'', noErrors_out = True, errors_out = [] \<rparr>"
  by code_simp

text \<open>
  Claim C6. The claim: the scope values "deprecated", "collection" and "macrolanguage"
  set the flag of that name, and any other value sets none. The parser compares the
  value with "macrolanguge" and with "collection" only: of four records with the scopes
  "macrolanguage", "deprecated", "collection" and "macrolanguge", the first two come out
  with no flag set, the third as a collection and the fourth as a macrolanguage.
\<close>

theorem parse_scope:
  "parse f (document [''File-Date: 2021-08-06'',
       ''%%'', ''Type: language'', ''Subtag: en'', ''Description: English'',
               ''Scope: macrolanguage'',
       ''%%'', ''Type: language'', ''Subtag: fr'', ''Description: French'',
               ''Scope: deprecated'',
       ''%%'', ''Type: language'', ''Subtag: sl'', ''Description: Slovenian'',
               ''Scope: collection'',
       ''%%'', ''Type: language'', ''Subtag: zz'', ''Description: Zz'',
               ''Scope: macrolanguge'']) =
     Inr \<lparr> languages_out =
             [(''English'', english),
              (''French'', french),
              (''Slovenian'', new_BCP47Language\<lparr> m_subtag := ''sl'',
                  m_descriptions := [''Slovenian''], m_collection := True \<rparr>),
              (''Zz'', new_BCP47Language\<lparr> m_subtag := ''zz'',
                  m_descriptions := [''Zz''], m_macrolanguage := True \<rparr>)],
           fileDate_out = f ''2021-08-06'', noErrors_out = True, errors_out = [] \<rparr>"
  by code_simp

text \<open>
  In every state of the parser, a scope value other than "macrolanguge" and "collection"
  (so "macrolanguage" and "deprecated" too) changes nothing but the line buffer.
\<close>

lemma lName_Scope: "toLower (toLower (trimmed ''Scope'')) = ''scope''"
  by code_simp

lemma parse_field_scope_ignored:
  "value_v p \<noteq> ''macrolanguge'' \<Longrightarrow> value_v p \<noteq> ''collection'' \<Longrightarrow>
   parse_field f ''Scope'' p = Inr (p\<lparr> line_v := [] \<rparr>)"
  by (simp add: parse_field_def Let_def lName_Scope)

end
